theory Spec2Isabelle
  imports Complex_Main "HOL-Library.Word" "HOL-Library.AList"
begin

section \<open>JavaScript values\<close>

text \<open>
  A JavaScript string is a sequence of UTF-16 code units. String literals of the source
  are ASCII (apart from two emoji, written out as surrogate pairs below) and are embedded
  with \<open>str\<close>.
\<close>

type_synonym jsstring = "16 word list"

definition str :: "string \<Rightarrow> jsstring" where
  "str s = map (\<lambda>c. of_nat (of_char c)) s"

text \<open>
  \<open>String.prototype.trim\<close> strips the code units of WhiteSpace and LineTerminator
  from both ends.
\<close>

definition is_white_space :: "16 word \<Rightarrow> bool" where
  "is_white_space c \<longleftrightarrow>
     c \<in> set [0x9, 0xA, 0xB, 0xC, 0xD, 0x20, 0xA0, 0x1680, 0x2028, 0x2029,
              0x202F, 0x205F, 0x3000, 0xFEFF]
     \<or> (0x2000 \<le> c \<and> c \<le> 0x200A)"

definition trim :: "jsstring \<Rightarrow> jsstring" where
  "trim s = rev (dropWhile is_white_space (rev (dropWhile is_white_space s)))"

text \<open>\<open>a || b\<close> on strings: the empty string is the only falsy string.\<close>

definition str_or :: "jsstring \<Rightarrow> jsstring \<Rightarrow> jsstring" where
  "str_or a b = (if a \<noteq> [] then a else b)"

text \<open>
  An optional property of an object is absent, holds \<open>undefined\<close> or \<open>null\<close>, or
  holds a value. Object spread copies the last two and skips the first.
\<close>

datatype 'a optional = Absent | Nullish | Present 'a

fun opt_truthy :: "jsstring optional \<Rightarrow> bool" where
  "opt_truthy (Present s) = (s \<noteq> [])"
| "opt_truthy _ = False"

fun opt_or :: "jsstring optional \<Rightarrow> jsstring \<Rightarrow> jsstring" where
  "opt_or (Present s) b = (if s \<noteq> [] then s else b)"
| "opt_or _ b = b"

definition spread_opt :: "'a optional \<Rightarrow> 'a optional \<Rightarrow> 'a optional" where
  "spread_opt earlier later = (case later of Absent \<Rightarrow> earlier | _ \<Rightarrow> later)"

text \<open>
  A thrown value is an \<open>Error\<close> object carrying a message, or anything else. A promise
  settles by resolving with a value or by rejecting with a thrown value; an asynchronous
  handler returns or throws.
\<close>

datatype js_thrown = ErrorObject jsstring | NonError jsstring

fun message_or :: "js_thrown \<Rightarrow> jsstring \<Rightarrow> jsstring" where
  "message_or (ErrorObject m) fallback = m"
| "message_or (NonError _) fallback = fallback"

datatype 'a settled = Resolved 'a | Rejected js_thrown

datatype outcome = Returned | Threw js_thrown

section \<open>Data model\<close>

text \<open>
  A JavaScript number is NaN, an infinity or a finite value. A comparison with NaN on
  either side is false; the others compare as extended reals. The form's own inputs store
  \<open>parseFloat(v) || 0\<close>, which is never NaN, but the form is also filled from the
  pet being edited, whose numbers are copied as they are.
\<close>

datatype js_number = NaN | NegInfinity | Num real | PosInfinity

fun js_le :: "js_number \<Rightarrow> js_number \<Rightarrow> bool" where
  "js_le NaN y = False"
| "js_le x NaN = False"
| "js_le NegInfinity y = True"
| "js_le x PosInfinity = True"
| "js_le (Num a) (Num b) = (a \<le> b)"
| "js_le x y = False"

fun js_less :: "js_number \<Rightarrow> js_number \<Rightarrow> bool" where
  "js_less NaN y = False"
| "js_less x NaN = False"
| "js_less (Num a) (Num b) = (a < b)"
| "js_less x NegInfinity = False"
| "js_less NegInfinity y = True"
| "js_less PosInfinity y = False"
| "js_less x PosInfinity = True"

instantiation js_number :: "{zero, ord}"
begin

definition zero_js_number :: js_number where
  "zero_js_number = Num 0"

definition less_eq_js_number :: "js_number \<Rightarrow> js_number \<Rightarrow> bool" where
  "less_eq_js_number x y = js_le x y"

definition less_js_number :: "js_number \<Rightarrow> js_number \<Rightarrow> bool" where
  "less_js_number x y = js_less x y"

instance ..

end

datatype health_status = Healthy | NeedsAttention

record pet =
  pet_id :: jsstring
  pet_name :: jsstring
  pet_type :: jsstring
  pet_breed :: jsstring
  pet_age :: js_number
  pet_weight :: js_number
  pet_activityLevel :: jsstring
  pet_healthIssues :: "jsstring optional"
  pet_imageUrl :: "jsstring optional"
  pet_isDesexed :: bool
  pet_healthStatus :: "health_status optional"

record pet_form_data =
  name :: jsstring
  type :: jsstring
  breed :: jsstring
  age :: js_number
  weight :: js_number
  activityLevel :: jsstring
  healthIssues :: jsstring
  imageUrl :: jsstring
  isDesexed :: bool

section \<open>PetFormDialog\<close>

record form_state =
  formData :: pet_form_data
  errors :: "(string \<times> jsstring) list"
  submitError :: jsstring

text \<open>The initial value of the form state.\<close>

definition initialFormData :: pet_form_data where
  "initialFormData =
     \<lparr>name = [], type = [], breed = [], age = 0, weight = 0, activityLevel = [],
      healthIssues = str ''None'', imageUrl = [], isDesexed = False\<rparr>"

definition initialFormState :: form_state where
  "initialFormState = \<lparr>formData = initialFormData, errors = [], submitError = []\<rparr>"

text \<open>
  \<open>validateForm\<close> builds \<open>newErrors\<close> by six guarded property assignments, stores it
  and returns whether it has no keys. An object is an association list in insertion
  order; assigning a property is \<open>AList.update\<close>.
\<close>

definition newErrors :: "pet_form_data \<Rightarrow> (string \<times> jsstring) list" where
  "newErrors fd =
     (let e0 = [];
          e1 = (if trim (name fd) = []
                then AList.update ''name'' (str ''Pet name is required'') e0 else e0);
          e2 = (if type fd = []
                then AList.update ''type'' (str ''Pet type is required'') e1 else e1);
          e3 = (if trim (breed fd) = []
                then AList.update ''breed'' (str ''Breed is required'') e2 else e2);
          e4 = (if age fd \<le> 0
                then AList.update ''age'' (str ''Age must be greater than 0'') e3 else e3);
          e5 = (if weight fd \<le> 0
                then AList.update ''weight'' (str ''Weight must be greater than 0'') e4
                else e4);
          e6 = (if activityLevel fd = []
                then AList.update ''activityLevel'' (str ''Activity level is required'') e5
                else e5)
      in e6)"

definition validateForm :: "form_state \<Rightarrow> form_state \<times> bool" where
  "validateForm st =
     (let ne = newErrors (formData st)
      in (st\<lparr>errors := ne\<rparr>, length (map fst ne) = 0))"

text \<open>
  \<open>handleSubmit\<close>: the calls made on the two callback props are recorded in order.
  \<open>onSubmit\<close> is given by how its promise settles for the submitted data.
\<close>

datatype form_call = OnSubmit pet_form_data | OnClose

definition handleSubmit ::
  "(pet_form_data \<Rightarrow> unit settled) \<Rightarrow> form_state \<Rightarrow> form_state \<times> form_call list" where
  "handleSubmit onSubmit st =
     (case validateForm st of (st1, ok) \<Rightarrow>
        if \<not> ok then (st1, [])
        else
          let st2 = st1\<lparr>submitError := []\<rparr> in
          (case onSubmit (formData st) of
             Resolved _ \<Rightarrow> (st2, [OnSubmit (formData st), OnClose])
           | Rejected e \<Rightarrow>
               (st2\<lparr>submitError := message_or e (str ''An error occurred'')\<rparr>,
                [OnSubmit (formData st)])))"

text \<open>
  The effect run when the dialog opens: the form is filled from the pet being edited, or
  reset, and both error states are cleared.
\<close>

definition resetForm :: "pet option \<Rightarrow> form_state" where
  "resetForm p =
     \<lparr>formData =
        (case p of
           Some pt \<Rightarrow>
             \<lparr>name = pet_name pt, type = pet_type pt, breed = pet_breed pt,
              age = pet_age pt, weight = pet_weight pt,
              activityLevel = pet_activityLevel pt,
              healthIssues = opt_or (pet_healthIssues pt) (str ''None''),
              imageUrl = opt_or (pet_imageUrl pt) [],
              isDesexed = pet_isDesexed pt\<rparr>
         | None \<Rightarrow> initialFormData),
      errors = [], submitError = []\<rparr>"

section \<open>DeleteConfirmDialog\<close>

text \<open>
  \<open>handleConfirm\<close> awaits \<open>onConfirm\<close>, then calls \<open>onClose\<close>; a rejection is caught
  and written to the console. The handler itself always returns.
\<close>

datatype confirm_call = OnConfirm | OnCloseConfirm | ConsoleError js_thrown

definition handleConfirm :: "unit settled \<Rightarrow> confirm_call list \<times> outcome" where
  "handleConfirm onConfirm =
     (case onConfirm of
        Resolved _ \<Rightarrow> ([OnConfirm, OnCloseConfirm], Returned)
      | Rejected e \<Rightarrow> ([OnConfirm, ConsoleError e], Returned))"

text \<open>
  The rendered dialog: nothing is rendered without a pet or while closed; the Cancel
  button and a dismissal call \<open>onClose\<close>; the delete button, disabled while loading,
  calls \<open>handleConfirm\<close>.
\<close>

datatype confirm_event = ClickCancel | Dismiss | ClickDelete

record confirm_props =
  cp_open :: bool
  cp_pet :: "pet option"
  cp_loading :: bool

definition confirm_dispatch ::
  "confirm_props \<Rightarrow> unit settled \<Rightarrow> confirm_event \<Rightarrow> confirm_call list \<times> outcome" where
  "confirm_dispatch props onConfirm ev =
     (if cp_pet props = None \<or> \<not> cp_open props then ([], Returned)
      else case ev of
        ClickCancel \<Rightarrow> ([OnCloseConfirm], Returned)
      | Dismiss \<Rightarrow> ([OnCloseConfirm], Returned)
      | ClickDelete \<Rightarrow>
          if cp_loading props then ([], Returned) else handleConfirm onConfirm)"

section \<open>MyPetsPage\<close>

definition mockPets :: "pet list" where
  "mockPets =
     [\<lparr>pet_id = str ''1'', pet_name = str ''Buddy'', pet_type = str ''Dog'',
       pet_breed = str ''Golden Retriever'', pet_age = Num 3, pet_weight = Num 25,
       pet_activityLevel = str ''High'', pet_healthIssues = Present (str ''None''),
       pet_imageUrl = Present (str ''/pets/dog1.jpg''), pet_isDesexed = True,
       pet_healthStatus = Present Healthy\<rparr>,
      \<lparr>pet_id = str ''2'', pet_name = str ''Whiskers'', pet_type = str ''Cat'',
       pet_breed = str ''Persian'', pet_age = Num 2, pet_weight = Num 4,
       pet_activityLevel = str ''Low'', pet_healthIssues = Present (str ''Allergies''),
       pet_imageUrl = Present (str ''/pets/cat1.jpg''), pet_isDesexed = True,
       pet_healthStatus = Present NeedsAttention\<rparr>,
      \<lparr>pet_id = str ''3'', pet_name = str ''Max'', pet_type = str ''Dog'',
       pet_breed = str ''German Shepherd'', pet_age = Num 5, pet_weight = Num 30,
       pet_activityLevel = str ''High'', pet_healthIssues = Present (str ''None''),
       pet_imageUrl = Present (str ''/pets/dog2.jpg''), pet_isDesexed = True,
       pet_healthStatus = Present Healthy\<rparr>]"

datatype severity = SevSuccess | SevError | SevInfo | SevWarning

record snackbar_state =
  sb_open :: bool
  sb_message :: jsstring
  sb_severity :: severity

record page_state =
  pets :: "pet list"
  loading :: bool
  error :: "jsstring option"
  formDialogOpen :: bool
  deleteDialogOpen :: bool
  editingPet :: "pet option"
  deletingPet :: "pet option"
  formLoading :: bool
  deleteLoading :: bool
  snackbar :: snackbar_state

definition initialPageState :: page_state where
  "initialPageState =
     \<lparr>pets = [], loading = True, error = None, formDialogOpen = False,
      deleteDialogOpen = False, editingPet = None, deletingPet = None,
      formLoading = False, deleteLoading = False,
      snackbar = \<lparr>sb_open = False, sb_message = [], sb_severity = SevSuccess\<rparr>\<rparr>"

text \<open>
  The API client is given by how each of its promises settles. A handler runs to
  completion on the state it was created for (one request in flight per user action);
  its result is the final state, the API calls it made, and whether it returned or threw.
  Console output of the page is not modelled.
\<close>

record api_service =
  getPets :: "pet list settled"
  createPet :: "pet_form_data \<Rightarrow> pet settled"
  updatePet :: "jsstring \<Rightarrow> pet_form_data \<Rightarrow> pet settled"
  deletePet :: "jsstring \<Rightarrow> unit settled"

datatype api_call =
  GetPets | CreatePet pet_form_data | UpdatePet jsstring pet_form_data | DeletePet jsstring

record handler_result =
  state :: page_state
  api_calls :: "api_call list"
  outcome :: outcome

text \<open>\<open>fetchPets\<close>, given the value of \<open>process.env.NODE_ENV\<close>.\<close>

definition withHealthStatus :: "pet \<Rightarrow> pet" where
  "withHealthStatus p =
     p\<lparr>pet_healthStatus :=
         Present (if pet_healthIssues p = Present (str ''None'')
                     \<or> pet_healthIssues p = Present []
                  then Healthy else NeedsAttention)\<rparr>"

definition fetchPets :: "jsstring option \<Rightarrow> api_service \<Rightarrow> page_state \<Rightarrow> handler_result" where
  "fetchPets node_env api s =
     (let s1 = s\<lparr>loading := True, error := None\<rparr> in
      case getPets api of
        Resolved fetchedPets \<Rightarrow>
          \<lparr>state = s1\<lparr>pets := map withHealthStatus fetchedPets, loading := False\<rparr>,
           api_calls = [GetPets], outcome = Returned\<rparr>
      | Rejected apiError \<Rightarrow>
          if node_env = Some (str ''development'')
          then
            \<lparr>state = s1\<lparr>pets := mockPets,
                         snackbar :=
                           \<lparr>sb_open = True,
                            sb_message = str ''Using demo data - API not connected'',
                            sb_severity = SevInfo\<rparr>,
                         loading := False\<rparr>,
             api_calls = [GetPets], outcome = Returned\<rparr>
          else
            \<lparr>state = s1\<lparr>error :=
                           Some (str ''Unable to load your pets: ''
                                 @ message_or apiError (str ''Failed to load pets'')),
                         loading := False\<rparr>,
             api_calls = [GetPets], outcome = Returned\<rparr>)"

definition handleAddPet :: "page_state \<Rightarrow> page_state" where
  "handleAddPet s = s\<lparr>editingPet := None, formDialogOpen := True\<rparr>"

definition handleEditPet :: "pet \<Rightarrow> page_state \<Rightarrow> page_state" where
  "handleEditPet p s = s\<lparr>editingPet := Some p, formDialogOpen := True\<rparr>"

definition handleDeletePet :: "pet \<Rightarrow> page_state \<Rightarrow> page_state" where
  "handleDeletePet p s = s\<lparr>deletingPet := Some p, deleteDialogOpen := True\<rparr>"

definition handleFormDialogClose :: "page_state \<Rightarrow> page_state" where
  "handleFormDialogClose s = s\<lparr>formDialogOpen := False, editingPet := None\<rparr>"

definition handleDeleteDialogClose :: "page_state \<Rightarrow> page_state" where
  "handleDeleteDialogClose s = s\<lparr>deleteDialogOpen := False, deletingPet := None\<rparr>"

text \<open>
  Object spread, later properties winning: \<open>{...a, ...b}\<close> for two pets and
  \<open>{...a, ...formData}\<close> for a pet and the nine properties of the form data.
\<close>

definition spread_pet :: "pet \<Rightarrow> pet \<Rightarrow> pet" where
  "spread_pet a b =
     \<lparr>pet_id = pet_id b, pet_name = pet_name b, pet_type = pet_type b,
      pet_breed = pet_breed b, pet_age = pet_age b, pet_weight = pet_weight b,
      pet_activityLevel = pet_activityLevel b,
      pet_healthIssues = spread_opt (pet_healthIssues a) (pet_healthIssues b),
      pet_imageUrl = spread_opt (pet_imageUrl a) (pet_imageUrl b),
      pet_isDesexed = pet_isDesexed b,
      pet_healthStatus = spread_opt (pet_healthStatus a) (pet_healthStatus b)\<rparr>"

definition spread_form :: "pet \<Rightarrow> pet_form_data \<Rightarrow> pet" where
  "spread_form a fd =
     a\<lparr>pet_name := name fd, pet_type := type fd, pet_breed := breed fd,
       pet_age := age fd, pet_weight := weight fd,
       pet_activityLevel := activityLevel fd,
       pet_healthIssues := Present (healthIssues fd),
       pet_imageUrl := Present (imageUrl fd),
       pet_isDesexed := isDesexed fd\<rparr>"

definition completeUpdatedPet :: "pet \<Rightarrow> pet \<Rightarrow> pet_form_data \<Rightarrow> pet" where
  "completeUpdatedPet editing updatedPet fd =
     (spread_form (spread_pet editing updatedPet) fd)\<lparr>pet_id := pet_id editing\<rparr>"

definition newPet :: "pet \<Rightarrow> pet_form_data \<Rightarrow> pet" where
  "newPet createdPet fd =
     createdPet
       \<lparr>pet_healthIssues :=
          Present (opt_or (pet_healthIssues createdPet)
                     (str_or (healthIssues fd) (str ''None''))),
        pet_imageUrl :=
          Present (opt_or (pet_imageUrl createdPet) (str_or (imageUrl fd) [])),
        pet_healthStatus :=
          Present (if pet_healthIssues createdPet = Present (str ''None'')
                      \<or> pet_healthIssues createdPet = Present []
                      \<or> \<not> opt_truthy (pet_healthIssues createdPet)
                   then Healthy else NeedsAttention)\<rparr>"

text \<open>The \<open>catch\<close> and \<open>finally\<close> blocks of \<open>handleFormSubmit\<close>.\<close>

definition catchFormSubmit :: "page_state \<Rightarrow> api_call list \<Rightarrow> js_thrown \<Rightarrow> handler_result" where
  "catchFormSubmit s cs e =
     \<lparr>state =
        s\<lparr>snackbar :=
            \<lparr>sb_open = True,
             sb_message =
               str ''Failed to ''
               @ (if editingPet s \<noteq> None then str ''update'' else str ''create'')
               @ str '' pet: '' @ message_or e (str ''Operation failed''),
             sb_severity = SevError\<rparr>,
          formLoading := False\<rparr>,
      api_calls = cs, outcome = Threw e\<rparr>"

definition handleFormSubmit :: "api_service \<Rightarrow> pet_form_data \<Rightarrow> page_state \<Rightarrow> handler_result" where
  "handleFormSubmit api fd s =
     (let s1 = s\<lparr>formLoading := True\<rparr> in
      case editingPet s of
        Some ep \<Rightarrow>
          (case updatePet api (pet_id ep) fd of
             Resolved updatedPet \<Rightarrow>
               \<lparr>state =
                  s1\<lparr>pets :=
                       map (\<lambda>p. if pet_id p = pet_id ep
                                then completeUpdatedPet ep updatedPet fd else p)
                         (pets s1),
                     snackbar :=
                       \<lparr>sb_open = True,
                        sb_message = str ''Pet updated successfully! '' @ [0xD83C, 0xDF89],
                        sb_severity = SevSuccess\<rparr>,
                     formLoading := False\<rparr>,
                api_calls = [UpdatePet (pet_id ep) fd], outcome = Returned\<rparr>
           | Rejected e \<Rightarrow> catchFormSubmit s1 [UpdatePet (pet_id ep) fd] e)
      | None \<Rightarrow>
          (case createPet api fd of
             Resolved createdPet \<Rightarrow>
               \<lparr>state =
                  s1\<lparr>pets := pets s1 @ [newPet createdPet fd],
                     snackbar :=
                       \<lparr>sb_open = True,
                        sb_message =
                          name fd @ str '' added successfully! '' @ [0xD83D, 0xDC3E],
                        sb_severity = SevSuccess\<rparr>,
                     formLoading := False\<rparr>,
                api_calls = [CreatePet fd], outcome = Returned\<rparr>
           | Rejected e \<Rightarrow> catchFormSubmit s1 [CreatePet fd] e))"

definition handleDeleteConfirm :: "api_service \<Rightarrow> page_state \<Rightarrow> handler_result" where
  "handleDeleteConfirm api s =
     (case deletingPet s of
        None \<Rightarrow> \<lparr>state = s, api_calls = [], outcome = Returned\<rparr>
      | Some dp \<Rightarrow>
          (let s1 = s\<lparr>deleteLoading := True\<rparr> in
           case deletePet api (pet_id dp) of
             Resolved _ \<Rightarrow>
               \<lparr>state =
                  s1\<lparr>pets := filter (\<lambda>p. pet_id p \<noteq> pet_id dp) (pets s1),
                     snackbar :=
                       \<lparr>sb_open = True,
                        sb_message = pet_name dp @ str '' has been removed'',
                        sb_severity = SevSuccess\<rparr>,
                     deleteLoading := False\<rparr>,
                api_calls = [DeletePet (pet_id dp)], outcome = Returned\<rparr>
           | Rejected e \<Rightarrow>
               \<lparr>state =
                  s1\<lparr>snackbar :=
                       \<lparr>sb_open = True,
                        sb_message =
                          str ''Failed to delete '' @ pet_name dp @ str '': ''
                          @ message_or e (str ''Delete failed''),
                        sb_severity = SevError\<rparr>,
                     deleteLoading := False\<rparr>,
                api_calls = [DeletePet (pet_id dp)], outcome = Threw e\<rparr>))"

section \<open>Example inputs\<close>

text \<open>The form data of the specification's example, and variations of it.\<close>

definition rexForm :: pet_form_data where
  "rexForm =
     \<lparr>name = str ''Rex'', type = str ''dog'', breed = str ''Lab'', age = Num 2,
      weight = Num 20,
      activityLevel = str ''high'', healthIssues = str ''None'', imageUrl = [],
      isDesexed = False\<rparr>"

definition formWith :: "pet_form_data \<Rightarrow> form_state" where
  "formWith fd = \<lparr>formData = fd, errors = [], submitError = []\<rparr>"

text \<open>A single space as pet type and as activity level.\<close>

definition blankSelectsForm :: pet_form_data where
  "blankSelectsForm = rexForm\<lparr>type := [0x20], activityLevel := [0x20]\<rparr>"

text \<open>A space and a tab as name.\<close>

definition blankNameForm :: pet_form_data where
  "blankNameForm = rexForm\<lparr>name := [0x20, 0x9]\<rparr>"

text \<open>
  A pet whose age and weight are NaN, and the form as it is filled when that pet is
  opened for editing.
\<close>

definition nanPet :: pet where
  "nanPet = (mockPets ! 0)\<lparr>pet_age := NaN, pet_weight := NaN\<rparr>"

definition nanForm :: pet_form_data where
  "nanForm = formData (resetForm (Some nanPet))"

definition allergiesForm :: pet_form_data where
  "allergiesForm = rexForm\<lparr>healthIssues := str ''Allergies''\<rparr>"

definition networkError :: js_thrown where
  "networkError = ErrorObject (str ''Network Error'')"

definition resolvingSubmit :: "pet_form_data \<Rightarrow> unit settled" where
  "resolvingSubmit fd = Resolved ()"

definition rejectingSubmit :: "pet_form_data \<Rightarrow> unit settled" where
  "rejectingSubmit fd = Rejected networkError"

definition rejectingSubmitRaw :: "pet_form_data \<Rightarrow> unit settled" where
  "rejectingSubmitRaw fd = Rejected (NonError (str ''503''))"

text \<open>
  A backend that stores no health issues and answers a create or update with the record
  it stored, the health issues being the empty string.
\<close>

definition storedPet :: "jsstring \<Rightarrow> pet_form_data \<Rightarrow> pet" where
  "storedPet i fd =
     \<lparr>pet_id = i, pet_name = name fd, pet_type = type fd, pet_breed = breed fd,
      pet_age = age fd, pet_weight = weight fd, pet_activityLevel = activityLevel fd,
      pet_healthIssues = Present [], pet_imageUrl = Present (imageUrl fd),
      pet_isDesexed = isDesexed fd, pet_healthStatus = Absent\<rparr>"

definition storingApi :: api_service where
  "storingApi =
     \<lparr>getPets = Resolved mockPets,
      createPet = (\<lambda>fd. Resolved (storedPet (str ''7'') fd)),
      updatePet = (\<lambda>i fd. Resolved (storedPet i fd)),
      deletePet = (\<lambda>i. Resolved ())\<rparr>"

definition failingApi :: api_service where
  "failingApi =
     \<lparr>getPets = Rejected networkError,
      createPet = (\<lambda>fd. Rejected networkError),
      updatePet = (\<lambda>i fd. Rejected networkError),
      deletePet = (\<lambda>i. Rejected networkError)\<rparr>"

definition loadedState :: page_state where
  "loadedState = initialPageState\<lparr>pets := mockPets, loading := False\<rparr>"

definition whiskers :: pet where
  "whiskers = mockPets ! 1"

definition editingState :: page_state where
  "editingState = handleEditPet whiskers loadedState"

definition deletingState :: page_state where
  "deletingState = handleDeletePet whiskers loadedState"

definition shownConfirm :: confirm_props where
  "shownConfirm = \<lparr>cp_open = True, cp_pet = Some whiskers, cp_loading = False\<rparr>"

section \<open>Comparisons with zero\<close>

lemma Num_le_zero [simp]: "Num r \<le> 0 \<longleftrightarrow> r \<le> 0"
  by (simp add: less_eq_js_number_def zero_js_number_def)

lemma zero_less_Num [simp]: "0 < Num r \<longleftrightarrow> 0 < r"
  by (simp add: less_js_number_def zero_js_number_def)

lemma zero_le_zero_js [simp]: "(0::js_number) \<le> 0"
  by (simp add: less_eq_js_number_def zero_js_number_def)

lemma NaN_compare_zero [simp]: "\<not> NaN \<le> 0" "\<not> 0 < NaN"
  by (simp_all add: less_eq_js_number_def less_js_number_def zero_js_number_def)

lemma Infinity_compare_zero [simp]:
  "NegInfinity \<le> 0" "\<not> 0 < NegInfinity" "\<not> PosInfinity \<le> 0" "0 < PosInfinity"
  by (simp_all add: less_eq_js_number_def less_js_number_def zero_js_number_def)

lemma le_zero_iff_not_pos: "x \<noteq> NaN \<Longrightarrow> x \<le> 0 \<longleftrightarrow> \<not> 0 < x"
  by (cases x) (simp_all add: not_less)

section \<open>Form validation\<close>

lemma dropWhile_all_iff: "(\<forall>x\<in>set (dropWhile P xs). P x) \<longleftrightarrow> dropWhile P xs = []"
  by (induction xs) auto

lemma trim_eq_Nil_iff: "trim s = [] \<longleftrightarrow> (\<forall>c\<in>set s. is_white_space c)"
  by (simp add: trim_def dropWhile_all_iff)

lemma trim_Nil: "trim [] = []"
  by (simp add: trim_def)

lemma map_of_guarded:
  "map_of (if c then AList.update k v al else al) k' =
     (if c \<and> k' = k then Some v else map_of al k')"
  by (simp add: update_conv')

lemma lookup_name:
  "map_of (newErrors fd) ''name'' =
     (if trim (name fd) = [] then Some (str ''Pet name is required'') else None)"
  by (simp add: newErrors_def Let_def map_of_guarded)

lemma lookup_type:
  "map_of (newErrors fd) ''type'' =
     (if type fd = [] then Some (str ''Pet type is required'') else None)"
  by (simp add: newErrors_def Let_def map_of_guarded)

lemma lookup_breed:
  "map_of (newErrors fd) ''breed'' =
     (if trim (breed fd) = [] then Some (str ''Breed is required'') else None)"
  by (simp add: newErrors_def Let_def map_of_guarded)

lemma lookup_age:
  "map_of (newErrors fd) ''age'' =
     (if age fd \<le> 0 then Some (str ''Age must be greater than 0'') else None)"
  by (simp add: newErrors_def Let_def map_of_guarded)

lemma lookup_weight:
  "map_of (newErrors fd) ''weight'' =
     (if weight fd \<le> 0 then Some (str ''Weight must be greater than 0'') else None)"
  by (simp add: newErrors_def Let_def map_of_guarded)

lemma lookup_activityLevel:
  "map_of (newErrors fd) ''activityLevel'' =
     (if activityLevel fd = [] then Some (str ''Activity level is required'') else None)"
  by (simp add: newErrors_def Let_def map_of_guarded)

lemma newErrors_eq_Nil_iff:
  "newErrors fd = [] \<longleftrightarrow>
     trim (name fd) \<noteq> [] \<and> type fd \<noteq> [] \<and> trim (breed fd) \<noteq> []
     \<and> \<not> age fd \<le> 0 \<and> \<not> weight fd \<le> 0 \<and> activityLevel fd \<noteq> []"
  by (simp add: newErrors_def Let_def)

lemma validateForm_errors: "errors (fst (validateForm st)) = newErrors (formData st)"
  by (simp add: validateForm_def Let_def)

lemma validateForm_ok: "snd (validateForm st) \<longleftrightarrow> newErrors (formData st) = []"
  by (simp add: validateForm_def Let_def)

lemma handleSubmit_invalid:
  "newErrors (formData st) \<noteq> [] \<Longrightarrow> handleSubmit onSubmit st = (fst (validateForm st), [])"
  by (simp add: handleSubmit_def validateForm_def Let_def)

lemma handleSubmit_resolved:
  "newErrors (formData st) = [] \<Longrightarrow> onSubmit (formData st) = Resolved u \<Longrightarrow>
   handleSubmit onSubmit st =
     (st\<lparr>errors := [], submitError := []\<rparr>, [OnSubmit (formData st), OnClose])"
  by (simp add: handleSubmit_def validateForm_def Let_def)

lemma handleSubmit_rejected:
  "newErrors (formData st) = [] \<Longrightarrow> onSubmit (formData st) = Rejected e \<Longrightarrow>
   handleSubmit onSubmit st =
     (st\<lparr>errors := [], submitError := message_or e (str ''An error occurred'')\<rparr>,
      [OnSubmit (formData st)])"
  by (simp add: handleSubmit_def validateForm_def Let_def)

text \<open>
  C1. Whenever a required text field of the form data is empty, or the age or the weight
  is not positive, the error mapping stored by \<open>validateForm\<close> holds a message under
  that field's name, validation fails, and \<open>handleSubmit\<close> returns having called neither
  \<open>onSubmit\<close> nor \<open>onClose\<close>.
\<close>

theorem empty_required_field_rejected:
  "(name (formData st) = [] \<longrightarrow>
      map_of (errors (fst (validateForm st))) ''name'' = Some (str ''Pet name is required''))
   \<and> (type (formData st) = [] \<longrightarrow>
      map_of (errors (fst (validateForm st))) ''type'' = Some (str ''Pet type is required''))
   \<and> (breed (formData st) = [] \<longrightarrow>
      map_of (errors (fst (validateForm st))) ''breed'' = Some (str ''Breed is required''))
   \<and> (activityLevel (formData st) = [] \<longrightarrow>
      map_of (errors (fst (validateForm st))) ''activityLevel''
        = Some (str ''Activity level is required''))
   \<and> (age (formData st) \<le> 0 \<longrightarrow>
      map_of (errors (fst (validateForm st))) ''age''
        = Some (str ''Age must be greater than 0''))
   \<and> (weight (formData st) \<le> 0 \<longrightarrow>
      map_of (errors (fst (validateForm st))) ''weight''
        = Some (str ''Weight must be greater than 0''))
   \<and> (name (formData st) = [] \<or> type (formData st) = [] \<or> breed (formData st) = []
        \<or> activityLevel (formData st) = [] \<or> age (formData st) \<le> 0
        \<or> weight (formData st) \<le> 0 \<longrightarrow>
      \<not> snd (validateForm st)
      \<and> snd (handleSubmit onSubmit st) = []
      \<and> errors (fst (handleSubmit onSubmit st)) = errors (fst (validateForm st)))"
proof -
  have missing: "newErrors (formData st) \<noteq> []"
    if "name (formData st) = [] \<or> type (formData st) = [] \<or> breed (formData st) = []
        \<or> activityLevel (formData st) = [] \<or> age (formData st) \<le> 0
        \<or> weight (formData st) \<le> 0"
    using that by (auto simp: newErrors_eq_Nil_iff trim_Nil)
  show ?thesis
    using missing
    by (simp add: validateForm_errors validateForm_ok handleSubmit_invalid lookup_name
        lookup_type lookup_breed lookup_age lookup_weight lookup_activityLevel trim_Nil)
qed

theorem empty_required_field_rejected_witness:
  "name (formData initialFormState) = [] \<and> type (formData initialFormState) = []
   \<and> breed (formData initialFormState) = [] \<and> activityLevel (formData initialFormState) = []
   \<and> age (formData initialFormState) \<le> 0 \<and> weight (formData initialFormState) \<le> 0
   \<and> map_of (errors (fst (validateForm initialFormState))) ''name''
       = Some (str ''Pet name is required'')
   \<and> map_of (errors (fst (validateForm initialFormState))) ''weight''
       = Some (str ''Weight must be greater than 0'')
   \<and> snd (handleSubmit resolvingSubmit initialFormState) = []"
  using empty_required_field_rejected [of initialFormState resolvingSubmit]
  by (simp add: initialFormState_def initialFormData_def)

text \<open>
  C6, as stated, fails twice. A pet type and an activity level that consist of a single
  space are empty after trimming, yet validation stores no error for them and the data is
  submitted: both fields are tested with \<open>!value\<close>, without \<open>trim\<close>. And an age and
  a weight that are NaN, as the form holds them once it is filled from a pet carrying
  them, are not strictly positive, yet \<open>NaN <= 0\<close> is false, no error is stored and the
  data is submitted.
\<close>

theorem unchecked_inputs_accepted:
  "trim (type blankSelectsForm) = [] \<and> trim (activityLevel blankSelectsForm) = []
   \<and> errors (fst (validateForm (formWith blankSelectsForm))) = []
   \<and> snd (handleSubmit resolvingSubmit (formWith blankSelectsForm))
       = [OnSubmit blankSelectsForm, OnClose]
   \<and> age nanForm = NaN \<and> weight nanForm = NaN
   \<and> \<not> 0 < age nanForm \<and> \<not> 0 < weight nanForm
   \<and> errors (fst (validateForm (resetForm (Some nanPet)))) = []
   \<and> snd (handleSubmit resolvingSubmit (resetForm (Some nanPet)))
       = [OnSubmit nanForm, OnClose]"
proof -
  have selects:
    "trim (type blankSelectsForm) = [] \<and> trim (activityLevel blankSelectsForm) = []
     \<and> errors (fst (validateForm (formWith blankSelectsForm))) = []
     \<and> snd (handleSubmit resolvingSubmit (formWith blankSelectsForm))
         = [OnSubmit blankSelectsForm, OnClose]"
    by (simp add: handleSubmit_def validateForm_def newErrors_def Let_def formWith_def
        blankSelectsForm_def rexForm_def resolvingSubmit_def trim_def is_white_space_def
        str_def)
  have nan: "age nanForm = NaN \<and> weight nanForm = NaN"
    by (simp add: nanForm_def resetForm_def nanPet_def)
  have valid: "newErrors nanForm = []"
    by (simp add: newErrors_eq_Nil_iff nanForm_def resetForm_def nanPet_def mockPets_def
        trim_def is_white_space_def str_def)
  have filled: "formData (resetForm (Some nanPet)) = nanForm"
    by (simp add: nanForm_def)
  have submitted:
    "errors (fst (validateForm (resetForm (Some nanPet)))) = []
     \<and> snd (handleSubmit resolvingSubmit (resetForm (Some nanPet)))
         = [OnSubmit nanForm, OnClose]"
    using valid
    by (simp add: validateForm_errors filled
        handleSubmit_resolved [where u = "()"] resolvingSubmit_def)
  from selects nan submitted show ?thesis by simp
qed

text \<open>
  C6, amended. The name and the breed are invalid exactly when they are empty after
  trimming, that is, when every code unit is white space; the type and the activity level
  are invalid exactly when they are the empty string; an age and a weight other than NaN
  are invalid exactly when they are not strictly positive; and \<open>onSubmit\<close> is called
  exactly when the stored error mapping is empty.
\<close>

theorem validation_rules:
  "(map_of (errors (fst (validateForm st))) ''name'' \<noteq> None)
      = (trim (name (formData st)) = [])
   \<and> (map_of (errors (fst (validateForm st))) ''breed'' \<noteq> None)
      = (trim (breed (formData st)) = [])
   \<and> (trim (name (formData st)) = [])
      = (\<forall>c\<in>set (name (formData st)). is_white_space c)
   \<and> (trim (breed (formData st)) = [])
      = (\<forall>c\<in>set (breed (formData st)). is_white_space c)
   \<and> (map_of (errors (fst (validateForm st))) ''type'' \<noteq> None)
      = (type (formData st) = [])
   \<and> (map_of (errors (fst (validateForm st))) ''activityLevel'' \<noteq> None)
      = (activityLevel (formData st) = [])
   \<and> (age (formData st) \<noteq> NaN \<longrightarrow>
        (map_of (errors (fst (validateForm st))) ''age'' \<noteq> None)
          = (\<not> 0 < age (formData st)))
   \<and> (weight (formData st) \<noteq> NaN \<longrightarrow>
        (map_of (errors (fst (validateForm st))) ''weight'' \<noteq> None)
          = (\<not> 0 < weight (formData st)))
   \<and> (OnSubmit (formData st) \<in> set (snd (handleSubmit onSubmit st)))
      = (errors (fst (validateForm st)) = [])"
proof -
  have submitted:
    "(OnSubmit (formData st) \<in> set (snd (handleSubmit onSubmit st)))
       = (newErrors (formData st) = [])"
  proof (cases "newErrors (formData st) = []")
    case True
    then show ?thesis
      by (cases "onSubmit (formData st)")
         (simp_all add: handleSubmit_resolved handleSubmit_rejected)
  next
    case False
    then show ?thesis by (simp add: handleSubmit_invalid)
  qed
  have texts:
    "(map_of (newErrors (formData st)) ''name'' \<noteq> None) = (trim (name (formData st)) = [])"
    "(map_of (newErrors (formData st)) ''breed'' \<noteq> None) = (trim (breed (formData st)) = [])"
    "(map_of (newErrors (formData st)) ''type'' \<noteq> None) = (type (formData st) = [])"
    "(map_of (newErrors (formData st)) ''activityLevel'' \<noteq> None)
       = (activityLevel (formData st) = [])"
    by (simp_all add: lookup_name lookup_breed lookup_type lookup_activityLevel)
  have age_rule:
    "(map_of (newErrors (formData st)) ''age'' \<noteq> None) = (\<not> 0 < age (formData st))"
    if "age (formData st) \<noteq> NaN"
    using that by (simp add: lookup_age le_zero_iff_not_pos)
  have weight_rule:
    "(map_of (newErrors (formData st)) ''weight'' \<noteq> None) = (\<not> 0 < weight (formData st))"
    if "weight (formData st) \<noteq> NaN"
    using that by (simp add: lookup_weight le_zero_iff_not_pos)
  show ?thesis
    unfolding validateForm_errors submitted
    using texts age_rule weight_rule by (simp add: trim_eq_Nil_iff)
qed

theorem validation_rules_witness:
  "trim (name (formData (formWith blankNameForm))) = []
   \<and> name (formData (formWith blankNameForm)) \<noteq> []
   \<and> age (formData (formWith blankNameForm)) \<noteq> NaN
   \<and> weight (formData (formWith blankNameForm)) \<noteq> NaN
   \<and> map_of (errors (fst (validateForm (formWith blankNameForm)))) ''name'' \<noteq> None
   \<and> map_of (errors (fst (validateForm (formWith blankNameForm)))) ''type'' = None
   \<and> map_of (errors (fst (validateForm (formWith blankNameForm)))) ''age'' = None
   \<and> OnSubmit blankNameForm \<notin> set (snd (handleSubmit resolvingSubmit (formWith blankNameForm)))"
  using validation_rules [of "formWith blankNameForm" resolvingSubmit]
  by (simp add: handleSubmit_def validateForm_def newErrors_def Let_def trim_def
      formWith_def blankNameForm_def rexForm_def is_white_space_def str_def)

text \<open>
  C7. Once validation has passed: when \<open>onSubmit\<close> resolves, the submit error is the
  empty string and \<open>onClose\<close> is called after \<open>onSubmit\<close>; when \<open>onSubmit\<close> rejects
  with an \<open>Error\<close>, its message becomes the submit error and \<open>onClose\<close> is not
  called; a thrown value that is no \<open>Error\<close> gives the fixed message instead.
\<close>

theorem submit_outcome:
  assumes "snd (validateForm st)"
  shows "(onSubmit (formData st) = Resolved () \<longrightarrow>
            submitError (fst (handleSubmit onSubmit st)) = []
            \<and> snd (handleSubmit onSubmit st) = [OnSubmit (formData st), OnClose])
         \<and> (onSubmit' (formData st) = Rejected (ErrorObject m) \<longrightarrow>
            submitError (fst (handleSubmit onSubmit' st)) = m
            \<and> snd (handleSubmit onSubmit' st) = [OnSubmit (formData st)]
            \<and> OnClose \<notin> set (snd (handleSubmit onSubmit' st)))
         \<and> (onSubmit'' (formData st) = Rejected (NonError v) \<longrightarrow>
            submitError (fst (handleSubmit onSubmit'' st)) = str ''An error occurred''
            \<and> OnClose \<notin> set (snd (handleSubmit onSubmit'' st)))"
  using assms
  by (simp add: validateForm_ok handleSubmit_resolved handleSubmit_rejected)

theorem submit_outcome_witness:
  "snd (validateForm (formWith rexForm))
   \<and> resolvingSubmit rexForm = Resolved ()
   \<and> rejectingSubmit rexForm = Rejected (ErrorObject (str ''Network Error''))
   \<and> snd (handleSubmit resolvingSubmit (formWith rexForm)) = [OnSubmit rexForm, OnClose]
   \<and> submitError (fst (handleSubmit rejectingSubmit (formWith rexForm))) = str ''Network Error''
   \<and> snd (handleSubmit rejectingSubmit (formWith rexForm)) = [OnSubmit rexForm]
   \<and> submitError (fst (handleSubmit rejectingSubmitRaw (formWith rexForm)))
       = str ''An error occurred''"
proof -
  have valid: "snd (validateForm (formWith rexForm))"
    by (simp add: validateForm_ok newErrors_eq_Nil_iff formWith_def rexForm_def trim_def
        is_white_space_def str_def)
  show ?thesis
    using valid
      submit_outcome [OF valid, of resolvingSubmit rejectingSubmit "str ''Network Error''"
        rejectingSubmitRaw "str ''503''"]
    by (simp add: formWith_def resolvingSubmit_def rejectingSubmit_def
        rejectingSubmitRaw_def networkError_def)
qed

section \<open>Create, update and delete on the page\<close>

lemma str_Cons_not_Nil: "str (c # cs) @ x \<noteq> []"
  by (simp add: str_def)

lemma handleFormSubmit_create_rejected:
  "editingPet s = None \<Longrightarrow> createPet api fd = Rejected e \<Longrightarrow>
   handleFormSubmit api fd s = catchFormSubmit (s\<lparr>formLoading := True\<rparr>) [CreatePet fd] e"
  by (simp add: handleFormSubmit_def Let_def)

lemma handleFormSubmit_update_rejected:
  "editingPet s = Some ep \<Longrightarrow> updatePet api (pet_id ep) fd = Rejected e \<Longrightarrow>
   handleFormSubmit api fd s =
     catchFormSubmit (s\<lparr>formLoading := True\<rparr>) [UpdatePet (pet_id ep) fd] e"
  by (simp add: handleFormSubmit_def Let_def)

lemma handleFormSubmit_create_resolved:
  "editingPet s = None \<Longrightarrow> createPet api fd = Resolved createdPet \<Longrightarrow>
   pets (state (handleFormSubmit api fd s)) = pets s @ [newPet createdPet fd]"
  by (simp add: handleFormSubmit_def Let_def)

lemma handleFormSubmit_update_resolved:
  "editingPet s = Some ep \<Longrightarrow> updatePet api (pet_id ep) fd = Resolved updatedPet \<Longrightarrow>
   pets (state (handleFormSubmit api fd s)) =
     map (\<lambda>p. if pet_id p = pet_id ep then completeUpdatedPet ep updatedPet fd else p) (pets s)"
  by (simp add: handleFormSubmit_def Let_def)

lemma catchFormSubmit_pets: "pets (state (catchFormSubmit s cs e)) = pets s"
  by (simp add: catchFormSubmit_def)

lemma catchFormSubmit_outcome: "outcome (catchFormSubmit s cs e) = Threw e"
  by (simp add: catchFormSubmit_def)

lemma catchFormSubmit_snackbar:
  "sb_open (snackbar (state (catchFormSubmit s cs e)))
   \<and> sb_severity (snackbar (state (catchFormSubmit s cs e))) = SevError
   \<and> sb_message (snackbar (state (catchFormSubmit s cs e))) \<noteq> []"
  by (simp add: catchFormSubmit_def str_def)

lemma handleDeleteConfirm_rejected:
  "deletingPet s = Some dp \<Longrightarrow> deletePet api (pet_id dp) = Rejected e \<Longrightarrow>
   pets (state (handleDeleteConfirm api s)) = pets s
   \<and> sb_open (snackbar (state (handleDeleteConfirm api s)))
   \<and> sb_severity (snackbar (state (handleDeleteConfirm api s))) = SevError
   \<and> sb_message (snackbar (state (handleDeleteConfirm api s))) \<noteq> []
   \<and> outcome (handleDeleteConfirm api s) = Threw e"
  by (simp add: handleDeleteConfirm_def Let_def str_def)

lemma handleDeleteConfirm_resolved:
  "deletingPet s = Some dp \<Longrightarrow> deletePet api (pet_id dp) = Resolved u \<Longrightarrow>
   pets (state (handleDeleteConfirm api s)) = filter (\<lambda>p. pet_id p \<noteq> pet_id dp) (pets s)"
  by (simp add: handleDeleteConfirm_def Let_def)

text \<open>
  C2. When the API call of a create, an update or a delete rejects, the handler leaves the
  pets list as it was, opens the snackbar with severity error and a non-empty message, and
  throws the very value the API call rejected with.
\<close>

theorem failed_operation_keeps_list:
  assumes "case editingPet s of
             None \<Rightarrow> createPet api fd = Rejected e
           | Some ep \<Rightarrow> updatePet api (pet_id ep) fd = Rejected e"
    and "deletingPet s' = Some dp"
    and "deletePet api' (pet_id dp) = Rejected e'"
  shows "pets (state (handleFormSubmit api fd s)) = pets s
         \<and> sb_open (snackbar (state (handleFormSubmit api fd s)))
         \<and> sb_severity (snackbar (state (handleFormSubmit api fd s))) = SevError
         \<and> sb_message (snackbar (state (handleFormSubmit api fd s))) \<noteq> []
         \<and> outcome (handleFormSubmit api fd s) = Threw e
         \<and> pets (state (handleDeleteConfirm api' s')) = pets s'
         \<and> sb_open (snackbar (state (handleDeleteConfirm api' s')))
         \<and> sb_severity (snackbar (state (handleDeleteConfirm api' s'))) = SevError
         \<and> sb_message (snackbar (state (handleDeleteConfirm api' s'))) \<noteq> []
         \<and> outcome (handleDeleteConfirm api' s') = Threw e'"
proof -
  have form: "\<exists>cs. handleFormSubmit api fd s = catchFormSubmit (s\<lparr>formLoading := True\<rparr>) cs e"
    using assms(1)
    by (cases "editingPet s")
       (auto simp: handleFormSubmit_create_rejected handleFormSubmit_update_rejected)
  then obtain cs where
    "handleFormSubmit api fd s = catchFormSubmit (s\<lparr>formLoading := True\<rparr>) cs e" ..
  then show ?thesis
    using handleDeleteConfirm_rejected [OF assms(2) assms(3)]
    by (simp add: catchFormSubmit_pets catchFormSubmit_outcome catchFormSubmit_snackbar)
qed

theorem failed_operation_keeps_list_witness:
  "editingPet loadedState = None \<and> createPet failingApi rexForm = Rejected networkError
   \<and> editingPet editingState = Some whiskers
   \<and> updatePet failingApi (pet_id whiskers) rexForm = Rejected networkError
   \<and> deletingPet deletingState = Some whiskers
   \<and> deletePet failingApi (pet_id whiskers) = Rejected networkError
   \<and> pets (state (handleFormSubmit failingApi rexForm loadedState)) = mockPets
   \<and> outcome (handleFormSubmit failingApi rexForm loadedState) = Threw networkError
   \<and> pets (state (handleFormSubmit failingApi rexForm editingState)) = mockPets
   \<and> sb_message (snackbar (state (handleFormSubmit failingApi rexForm editingState)))
       = str ''Failed to update pet: Network Error''
   \<and> pets (state (handleDeleteConfirm failingApi deletingState)) = mockPets
   \<and> sb_message (snackbar (state (handleDeleteConfirm failingApi deletingState)))
       = str ''Failed to delete Whiskers: Network Error''
   \<and> outcome (handleDeleteConfirm failingApi deletingState) = Threw networkError"
proof -
  have h1: "case editingPet loadedState of
              None \<Rightarrow> createPet failingApi rexForm = Rejected networkError
            | Some ep \<Rightarrow> updatePet failingApi (pet_id ep) rexForm = Rejected networkError"
    by (simp add: loadedState_def initialPageState_def failingApi_def)
  have h1': "case editingPet editingState of
              None \<Rightarrow> createPet failingApi rexForm = Rejected networkError
            | Some ep \<Rightarrow> updatePet failingApi (pet_id ep) rexForm = Rejected networkError"
    by (simp add: editingState_def handleEditPet_def failingApi_def)
  have h2: "deletingPet deletingState = Some whiskers"
    by (simp add: deletingState_def handleDeletePet_def)
  have h3: "deletePet failingApi (pet_id whiskers) = Rejected networkError"
    by (simp add: failingApi_def)
  show ?thesis
    using failed_operation_keeps_list [OF h1 h2 h3] failed_operation_keeps_list [OF h1' h2 h3]
    by (simp add: handleFormSubmit_def handleDeleteConfirm_def catchFormSubmit_def Let_def
        loadedState_def editingState_def deletingState_def handleEditPet_def
        handleDeletePet_def initialPageState_def failingApi_def networkError_def
        whiskers_def mockPets_def str_def)
qed

lemma newPet_status:
  "pet_healthStatus (newPet createdPet fd) = Present Healthy \<longleftrightarrow>
     \<not> opt_truthy (pet_healthIssues createdPet)
     \<or> pet_healthIssues createdPet = Present (str ''None'')"
  by (cases "pet_healthIssues createdPet") (auto simp: newPet_def)

lemma newPet_status_echoed:
  "opt_truthy (pet_healthIssues createdPet) \<Longrightarrow>
   pet_healthIssues (newPet createdPet fd) = pet_healthIssues createdPet
   \<and> (pet_healthStatus (newPet createdPet fd) = Present Healthy
        \<longleftrightarrow> pet_healthIssues (newPet createdPet fd) = Present (str ''None''))
   \<and> (pet_healthStatus (newPet createdPet fd) = Present NeedsAttention
        \<longleftrightarrow> pet_healthIssues (newPet createdPet fd) \<noteq> Present (str ''None''))"
  by (cases "pet_healthIssues createdPet") (auto simp: newPet_def)

text \<open>
  C3. A successful create appends exactly one record, but its health status is derived
  from the health issues of the API's record alone, while its health issues fall back to
  those of the form. With the API answering an empty string and the form holding
  \<open>Allergies\<close>, the appended record has health issues \<open>Allergies\<close> and status healthy.
\<close>

theorem create_status_ignores_form_health_issues:
  "editingPet loadedState = None
   \<and> createPet storingApi allergiesForm = Resolved (storedPet (str ''7'') allergiesForm)
   \<and> pet_healthIssues (storedPet (str ''7'') allergiesForm) = Present []
   \<and> pets (state (handleFormSubmit storingApi allergiesForm loadedState))
       = pets loadedState @ [newPet (storedPet (str ''7'') allergiesForm) allergiesForm]
   \<and> pet_healthIssues (last (pets (state (handleFormSubmit storingApi allergiesForm loadedState))))
       = Present (str ''Allergies'')
   \<and> pet_healthStatus (last (pets (state (handleFormSubmit storingApi allergiesForm loadedState))))
       = Present Healthy"
  by (simp add: handleFormSubmit_def Let_def loadedState_def initialPageState_def
      storingApi_def storedPet_def newPet_def allergiesForm_def rexForm_def str_or_def
      str_def)

lemma completeUpdatedPet_id: "pet_id (completeUpdatedPet ep updatedPet fd) = pet_id ep"
  by (simp add: completeUpdatedPet_def)

lemma completeUpdatedPet_fields:
  "pet_name (completeUpdatedPet ep updatedPet fd) = name fd
   \<and> pet_type (completeUpdatedPet ep updatedPet fd) = type fd
   \<and> pet_breed (completeUpdatedPet ep updatedPet fd) = breed fd
   \<and> pet_age (completeUpdatedPet ep updatedPet fd) = age fd
   \<and> pet_weight (completeUpdatedPet ep updatedPet fd) = weight fd
   \<and> pet_activityLevel (completeUpdatedPet ep updatedPet fd) = activityLevel fd
   \<and> pet_healthIssues (completeUpdatedPet ep updatedPet fd) = Present (healthIssues fd)
   \<and> pet_imageUrl (completeUpdatedPet ep updatedPet fd) = Present (imageUrl fd)
   \<and> pet_isDesexed (completeUpdatedPet ep updatedPet fd) = isDesexed fd"
  by (simp add: completeUpdatedPet_def spread_form_def)

text \<open>
  C4. After a successful update the list has the same length; at every position the
  record whose identifier is that of the edited pet is replaced by the merged record, which
  keeps that identifier, and every other record is the one that was there before.
\<close>

theorem update_replaces_matching:
  assumes "editingPet s = Some ep"
    and "updatePet api (pet_id ep) fd = Resolved updatedPet"
  shows "length (pets (state (handleFormSubmit api fd s))) = length (pets s)
         \<and> (\<forall>i<length (pets s).
              (pet_id (pets s ! i) = pet_id ep \<longrightarrow>
                 pets (state (handleFormSubmit api fd s)) ! i
                   = completeUpdatedPet ep updatedPet fd
                 \<and> pet_id (pets (state (handleFormSubmit api fd s)) ! i) = pet_id ep)
              \<and> (pet_id (pets s ! i) \<noteq> pet_id ep \<longrightarrow>
                 pets (state (handleFormSubmit api fd s)) ! i = pets s ! i))
         \<and> map pet_id (pets (state (handleFormSubmit api fd s))) = map pet_id (pets s)"
proof -
  let ?merged = "completeUpdatedPet ep updatedPet fd"
  let ?new = "pets (state (handleFormSubmit api fd s))"
  have new: "?new = map (\<lambda>p. if pet_id p = pet_id ep then ?merged else p) (pets s)"
    by (rule handleFormSubmit_update_resolved [OF assms])
  have len: "length ?new = length (pets s)"
    by (simp add: new)
  have at: "(pet_id (pets s ! i) = pet_id ep \<longrightarrow>
               ?new ! i = ?merged \<and> pet_id (?new ! i) = pet_id ep)
            \<and> (pet_id (pets s ! i) \<noteq> pet_id ep \<longrightarrow> ?new ! i = pets s ! i)"
    if "i < length (pets s)" for i
    using that by (simp add: new completeUpdatedPet_id)
  have ids: "map pet_id ?new = map pet_id (pets s)"
    by (simp add: new completeUpdatedPet_id)
  from len at ids show ?thesis by blast
qed

theorem update_replaces_matching_witness:
  "editingPet editingState = Some whiskers
   \<and> updatePet storingApi (pet_id whiskers) rexForm
       = Resolved (storedPet (pet_id whiskers) rexForm)
   \<and> pets (state (handleFormSubmit storingApi rexForm editingState))
       = [mockPets ! 0,
          completeUpdatedPet whiskers (storedPet (pet_id whiskers) rexForm) rexForm,
          mockPets ! 2]
   \<and> pet_id (pets (state (handleFormSubmit storingApi rexForm editingState)) ! 1) = str ''2''
   \<and> pet_name (pets (state (handleFormSubmit storingApi rexForm editingState)) ! 1)
       = str ''Rex''"
proof -
  have h1: "editingPet editingState = Some whiskers"
    by (simp add: editingState_def handleEditPet_def)
  have h2: "updatePet storingApi (pet_id whiskers) rexForm
              = Resolved (storedPet (pet_id whiskers) rexForm)"
    by (simp add: storingApi_def)
  show ?thesis
    using update_replaces_matching [OF h1 h2]
    by (simp add: handleFormSubmit_def Let_def editingState_def handleEditPet_def
        loadedState_def initialPageState_def storingApi_def whiskers_def mockPets_def
        completeUpdatedPet_def spread_form_def spread_pet_def rexForm_def str_def)
qed

lemma filter_other_ids_length:
  "distinct (map f xs) \<Longrightarrow> k \<in> f ` set xs \<Longrightarrow>
   Suc (length (filter (\<lambda>p. f p \<noteq> k) xs)) = length xs"
proof (induction xs)
  case Nil
  then show ?case by simp
next
  case (Cons x xs)
  show ?case
  proof (cases "f x = k")
    case True
    with Cons.prems have "k \<notin> f ` set xs" by auto
    then have "filter (\<lambda>p. f p \<noteq> k) xs = xs"
      by (auto simp: filter_id_conv)
    with True show ?thesis by simp
  next
    case False
    with Cons show ?thesis by auto
  qed
qed

text \<open>
  C5. After a successful delete the list is the previous one without the records that
  carry the target's identifier: no such record remains, every other record is kept, in
  order, and where identifiers are unique and the target is listed exactly one record is
  gone.
\<close>

theorem delete_removes_matching:
  assumes "deletingPet s = Some dp"
    and "deletePet api (pet_id dp) = Resolved u"
  shows "pets (state (handleDeleteConfirm api s))
           = filter (\<lambda>p. pet_id p \<noteq> pet_id dp) (pets s)
         \<and> (\<forall>p\<in>set (pets (state (handleDeleteConfirm api s))). pet_id p \<noteq> pet_id dp)
         \<and> (\<forall>p\<in>set (pets s). pet_id p \<noteq> pet_id dp \<longrightarrow>
               p \<in> set (pets (state (handleDeleteConfirm api s))))
         \<and> (distinct (map pet_id (pets s)) \<and> pet_id dp \<in> pet_id ` set (pets s) \<longrightarrow>
               Suc (length (pets (state (handleDeleteConfirm api s)))) = length (pets s))"
proof -
  let ?new = "pets (state (handleDeleteConfirm api s))"
  have new: "?new = filter (\<lambda>p. pet_id p \<noteq> pet_id dp) (pets s)"
    by (rule handleDeleteConfirm_resolved [OF assms])
  have gone: "\<forall>p\<in>set ?new. pet_id p \<noteq> pet_id dp"
    by (simp add: new)
  have kept: "\<forall>p\<in>set (pets s). pet_id p \<noteq> pet_id dp \<longrightarrow> p \<in> set ?new"
    by (simp add: new)
  have one: "Suc (length ?new) = length (pets s)"
    if "distinct (map pet_id (pets s))" and "pet_id dp \<in> pet_id ` set (pets s)"
    unfolding new using that by (rule filter_other_ids_length)
  from new gone kept one show ?thesis by blast
qed

theorem delete_removes_matching_witness:
  "deletingPet deletingState = Some whiskers
   \<and> deletePet storingApi (pet_id whiskers) = Resolved ()
   \<and> distinct (map pet_id (pets deletingState))
   \<and> pet_id whiskers \<in> pet_id ` set (pets deletingState)
   \<and> pets (state (handleDeleteConfirm storingApi deletingState)) = [mockPets ! 0, mockPets ! 2]"
proof -
  have h1: "deletingPet deletingState = Some whiskers"
    by (simp add: deletingState_def handleDeletePet_def)
  have h2: "deletePet storingApi (pet_id whiskers) = Resolved ()"
    by (simp add: storingApi_def)
  show ?thesis
    using delete_removes_matching [OF h1 h2]
    by (simp add: handleDeleteConfirm_def Let_def deletingState_def handleDeletePet_def
        loadedState_def initialPageState_def storingApi_def whiskers_def mockPets_def
        str_def)
qed

text \<open>
  C10. With no pet selected for deletion, \<open>handleDeleteConfirm\<close> returns at once: it
  makes no API call and leaves the whole page state, in particular the pets list, the
  delete-loading flag and the snackbar, as it was.
\<close>

theorem delete_without_target_is_noop:
  assumes "deletingPet s = None"
  shows "api_calls (handleDeleteConfirm api s) = []
         \<and> outcome (handleDeleteConfirm api s) = Returned
         \<and> state (handleDeleteConfirm api s) = s
         \<and> pets (state (handleDeleteConfirm api s)) = pets s
         \<and> deleteLoading (state (handleDeleteConfirm api s)) = deleteLoading s
         \<and> snackbar (state (handleDeleteConfirm api s)) = snackbar s"
proof -
  have "handleDeleteConfirm api s = \<lparr>state = s, api_calls = [], outcome = Returned\<rparr>"
    using assms by (simp add: handleDeleteConfirm_def)
  then show ?thesis by simp
qed

theorem delete_without_target_is_noop_witness:
  "deletingPet loadedState = None
   \<and> api_calls (handleDeleteConfirm failingApi loadedState) = []
   \<and> outcome (handleDeleteConfirm failingApi loadedState) = Returned
   \<and> state (handleDeleteConfirm failingApi loadedState) = loadedState"
proof -
  have h: "deletingPet loadedState = None"
    by (simp add: loadedState_def initialPageState_def)
  show ?thesis
    using h delete_without_target_is_noop [OF h, of failingApi] by simp
qed

section \<open>Loading the list\<close>

lemma fetchPets_rejected_development:
  "getPets api = Rejected e \<Longrightarrow>
   state (fetchPets (Some (str ''development'')) api s) =
     s\<lparr>loading := False, error := None, pets := mockPets,
       snackbar := \<lparr>sb_open = True,
                    sb_message = str ''Using demo data - API not connected'',
                    sb_severity = SevInfo\<rparr>\<rparr>"
  by (simp add: fetchPets_def Let_def)

lemma fetchPets_rejected_other:
  "getPets api = Rejected e \<Longrightarrow> node_env \<noteq> Some (str ''development'') \<Longrightarrow>
   state (fetchPets node_env api s) =
     s\<lparr>loading := False,
       error := Some (str ''Unable to load your pets: ''
                      @ message_or e (str ''Failed to load pets''))\<rparr>"
  by (simp add: fetchPets_def Let_def)

lemma str_Cons_neq_Nil: "str (c # cs) \<noteq> []"
  by (simp add: str_def)

lemma mockPets_length: "length mockPets = 3"
  by (simp add: mockPets_def)

text \<open>
  C9. When the request for the list rejects: under \<open>NODE_ENV = development\<close> the pets
  list becomes the three demo records and an info snackbar is opened; under any other
  value the pets list and the snackbar are left as they were and the error value is set
  to a non-empty message.
\<close>

theorem fetch_failure_fallback:
  assumes "getPets api = Rejected e"
  shows "pets (state (fetchPets (Some (str ''development'')) api s)) = mockPets
         \<and> length (pets (state (fetchPets (Some (str ''development'')) api s))) = 3
         \<and> snackbar (state (fetchPets (Some (str ''development'')) api s))
             = \<lparr>sb_open = True, sb_message = str ''Using demo data - API not connected'',
                sb_severity = SevInfo\<rparr>
         \<and> error (state (fetchPets (Some (str ''development'')) api s)) = None
         \<and> (node_env \<noteq> Some (str ''development'') \<longrightarrow>
               pets (state (fetchPets node_env api s)) = pets s
               \<and> snackbar (state (fetchPets node_env api s)) = snackbar s
               \<and> error (state (fetchPets node_env api s))
                   = Some (str ''Unable to load your pets: ''
                           @ message_or e (str ''Failed to load pets''))
               \<and> error (state (fetchPets node_env api s)) \<noteq> Some [])"
proof -
  have dev: "state (fetchPets (Some (str ''development'')) api s) =
      s\<lparr>loading := False, error := None, pets := mockPets,
        snackbar := \<lparr>sb_open = True,
                     sb_message = str ''Using demo data - API not connected'',
                     sb_severity = SevInfo\<rparr>\<rparr>"
    by (rule fetchPets_rejected_development [OF assms])
  have other: "state (fetchPets node_env api s) =
      s\<lparr>loading := False,
        error := Some (str ''Unable to load your pets: ''
                       @ message_or e (str ''Failed to load pets''))\<rparr>"
    if "node_env \<noteq> Some (str ''development'')"
    using that by (rule fetchPets_rejected_other [OF assms])
  show ?thesis
    unfolding dev using other
    by (simp add: mockPets_length str_Cons_neq_Nil)
qed

theorem fetch_failure_fallback_witness:
  "getPets failingApi = Rejected networkError
   \<and> Some (str ''production'') \<noteq> Some (str ''development'')
   \<and> pets (state (fetchPets (Some (str ''development'')) failingApi initialPageState))
       = mockPets
   \<and> pets (state (fetchPets (Some (str ''production'')) failingApi initialPageState)) = []
   \<and> error (state (fetchPets (Some (str ''production'')) failingApi initialPageState))
       = Some (str ''Unable to load your pets: Network Error'')"
proof -
  have h: "getPets failingApi = Rejected networkError"
    by (simp add: failingApi_def)
  have ne: "Some (str ''production'') \<noteq> Some (str ''development'')"
    by (simp add: str_def)
  show ?thesis
    using h ne
      fetch_failure_fallback [OF h, of initialPageState "Some (str ''production'')"]
    by (simp add: initialPageState_def networkError_def str_def)
qed

section \<open>Delete confirmation\<close>

lemma handleConfirm_returns: "snd (handleConfirm r) = Returned"
  by (cases r) (simp_all add: handleConfirm_def)

lemma handleConfirm_calls_onConfirm: "OnConfirm \<in> set (fst (handleConfirm r))"
  by (cases r) (simp_all add: handleConfirm_def)

text \<open>
  C8, as stated, fails in its last part: when the delete operation rejects,
  \<open>handleConfirm\<close> catches the error, writes it to the console and returns; nothing is
  thrown to whoever called it.
\<close>

theorem confirm_swallows_error:
  "fst (confirm_dispatch shownConfirm (Rejected networkError) ClickDelete)
     = [OnConfirm, ConsoleError networkError]
   \<and> snd (confirm_dispatch shownConfirm (Rejected networkError) ClickDelete) = Returned
   \<and> snd (handleConfirm (Rejected networkError)) \<noteq> Threw networkError"
  by (simp add: confirm_dispatch_def handleConfirm_def shownConfirm_def)

text \<open>
  C8, amended. The dialog calls \<open>onConfirm\<close> exactly on a click on the delete button
  while it is shown with a pet and not loading. \<open>handleConfirm\<close> calls \<open>onClose\<close>
  exactly when \<open>onConfirm\<close> resolves; when it rejects, \<open>onClose\<close> is not called, the
  error is written to the console, and \<open>handleConfirm\<close> returns without throwing.
\<close>

theorem confirm_dialog_behaviour:
  "(OnConfirm \<in> set (fst (confirm_dispatch props r ev)))
      = (ev = ClickDelete \<and> cp_open props \<and> cp_pet props \<noteq> None \<and> \<not> cp_loading props)
   \<and> (OnCloseConfirm \<in> set (fst (handleConfirm r))) = (r = Resolved ())
   \<and> (r = Rejected e \<longrightarrow>
         fst (handleConfirm r) = [OnConfirm, ConsoleError e]
         \<and> OnCloseConfirm \<notin> set (fst (handleConfirm r)))
   \<and> snd (handleConfirm r) = Returned"
proof -
  have dispatch:
    "(OnConfirm \<in> set (fst (confirm_dispatch props r ev)))
       = (ev = ClickDelete \<and> cp_open props \<and> cp_pet props \<noteq> None \<and> \<not> cp_loading props)"
    by (cases ev) (auto simp: confirm_dispatch_def handleConfirm_calls_onConfirm)
  have close: "(OnCloseConfirm \<in> set (fst (handleConfirm r))) = (r = Resolved ())"
    by (cases r) (simp_all add: handleConfirm_def)
  have rejected: "fst (handleConfirm (Rejected e)) = [OnConfirm, ConsoleError e]"
    by (simp add: handleConfirm_def)
  show ?thesis
    using dispatch close rejected by (simp add: handleConfirm_returns)
qed

theorem confirm_dialog_behaviour_witness:
  "OnConfirm \<in> set (fst (confirm_dispatch shownConfirm (Rejected networkError) ClickDelete))
   \<and> fst (handleConfirm (Rejected networkError)) = [OnConfirm, ConsoleError networkError]
   \<and> OnCloseConfirm \<notin> set (fst (handleConfirm (Rejected networkError)))
   \<and> snd (handleConfirm (Rejected networkError)) = Returned"
  using confirm_dialog_behaviour [of shownConfirm "Rejected networkError" ClickDelete networkError]
  by (simp add: shownConfirm_def)

end
